theory Spec2Isabelle
  imports Main
begin

text \<open>
  A shallow embedding of the request dispatcher (\<^verbatim>\<open>listen.ts\<close>: route registry,
  middleware, response lifecycle, sockets and channels) and of the manifest indexer
  (pattern compiler, role of a route file, static asset handler), with the properties
  their specification states.
\<close>

section \<open>JavaScript string operations used by the sources\<close>

text \<open>
  Strings are \<^typ>\<open>string\<close>. The helpers below are the \<^verbatim>\<open>String.prototype\<close>
  methods the sources call, written out on character lists.
\<close>

definition startsWith :: "string \<Rightarrow> string \<Rightarrow> bool" where
  \<comment> \<open>\<^verbatim>\<open>s.startsWith(p)\<close>\<close>
  "startsWith p s = (take (length p) s = p)"

definition endsWith :: "string \<Rightarrow> string \<Rightarrow> bool" where
  \<comment> \<open>\<^verbatim>\<open>s.endsWith(p)\<close>\<close>
  "endsWith p s = (length p \<le> length s \<and> drop (length s - length p) s = p)"

definition dropEnd :: "nat \<Rightarrow> string \<Rightarrow> string" where
  \<comment> \<open>\<^verbatim>\<open>s.slice(0, -n)\<close> for \<open>0 < n\<close>, and the replacement of a suffix of length \<open>n\<close> by the empty string\<close>
  "dropEnd n s = take (length s - n) s"

definition slice_to_last :: "nat \<Rightarrow> string \<Rightarrow> string" where
  \<comment> \<open>\<^verbatim>\<open>s.slice(a, -1)\<close>: from index \<open>a\<close> up to, not including, the last character\<close>
  "slice_to_last a s = take (length s - 1 - a) (drop a s)"

fun split :: "char \<Rightarrow> string \<Rightarrow> string list" where
  \<comment> \<open>\<^verbatim>\<open>s.split(c)\<close> for a one-character separator; the empty string gives one empty part\<close>
  "split c [] = [[]]"
| "split c (x # xs) =
     (if x = c then [] # split c xs
      else (case split c xs of
              [] \<Rightarrow> [[x]]
            | w # ws \<Rightarrow> (x # w) # ws))"

fun join :: "string \<Rightarrow> string list \<Rightarrow> string" where
  \<comment> \<open>\<^verbatim>\<open>parts.join(sep)\<close>\<close>
  "join sep [] = []"
| "join sep [w] = w"
| "join sep (w # ws) = w @ sep @ join sep ws"

fun includes_str :: "string \<Rightarrow> string \<Rightarrow> bool" where
  \<comment> \<open>\<^verbatim>\<open>s.includes(p)\<close>: \<open>p\<close> occurs in \<open>s\<close> as a substring\<close>
  "includes_str p [] = (p = [])"
| "includes_str p (x # xs) = (startsWith p (x # xs) \<or> includes_str p xs)"

fun collapse_slashes :: "string \<Rightarrow> string" where
  \<comment> \<open>every run of slashes becomes a single slash: the \<^verbatim>\<open>\/+\<close> alternative of
      \<^verbatim>\<open>replace(/(^\/*|\/+)/g, "/")\<close>\<close>
  "collapse_slashes [] = []"
| "collapse_slashes [x] = [x]"
| "collapse_slashes (x # y # xs) =
     (if x = CHR ''/'' \<and> y = CHR ''/'' then collapse_slashes (y # xs)
      else x # collapse_slashes (y # xs))"

definition normalise_slashes :: "string \<Rightarrow> string" where
  \<comment> \<open>\<^verbatim>\<open>replace(/(^\/*|\/+)/g, "/")\<close>: at index 0 the alternative \<^verbatim>\<open>^\/*\<close> always
      matches (the leading slashes, possibly none) and is replaced by one slash; every later
      run of slashes is replaced by one slash\<close>
  "normalise_slashes s =
     CHR ''/'' # collapse_slashes (dropWhile (\<lambda>c. c = CHR ''/'') s)"

section \<open>The pattern compiler (\<^verbatim>\<open>pathToPattern\<close>)\<close>

definition convert_part :: "string \<Rightarrow> string" where
  \<comment> \<open>the callback of \<^verbatim>\<open>.map\<close> in \<^verbatim>\<open>pathToPattern\<close>. The source's second branch,
      \<^verbatim>\<open>if (part.startsWith("[")) `:${part.slice(1, -1)}`;\<close>, is an expression statement:
      the template string is computed and dropped, and control reaches
      \<^verbatim>\<open>return part\<close>.\<close>
  "convert_part part =
     (if endsWith '']'' part then
        (if startsWith ''[...'' part then '':'' @ slice_to_last 4 part @ ''*''
         else if startsWith ''['' part then
           (let dropped = '':'' @ slice_to_last 1 part in part)
         else part)
      else part)"

definition strip_index :: "string \<Rightarrow> string" where
  \<comment> \<open>\<^verbatim>\<open>.replace(/\/index$/, "")\<close>\<close>
  "strip_index s = (if endsWith ''/index'' s then dropEnd 6 s else s)"

definition nested_marker :: "string \<Rightarrow> string" where
  \<comment> \<open>\<^verbatim>\<open>.replace(/\/_(middleware|data)$/, "/*?")\<close>\<close>
  "nested_marker s =
     (if endsWith ''/_middleware'' s then dropEnd 12 s @ ''/*?''
      else if endsWith ''/_data'' s then dropEnd 6 s @ ''/*?''
      else s)"

definition pathToPattern :: "string \<Rightarrow> string" where
  \<comment> \<open>the \<^verbatim>\<open>pathname\<close> string handed to \<^verbatim>\<open>new URLPattern({ pathname })\<close>\<close>
  "pathToPattern path =
     normalise_slashes (nested_marker (strip_index
       (join ''/'' (map convert_part (split CHR ''/'' path)))))"

section \<open>The manifest indexer (\<^verbatim>\<open>indexRoutes\<close>): the role of a route file\<close>

text \<open>
  A JavaScript number that may be \<^verbatim>\<open>NaN\<close> is a \<^typ>\<open>nat option\<close>, \<open>None\<close> for
  \<^verbatim>\<open>NaN\<close>: the only numbers formed here are read from strings of decimal digits.
\<close>

definition is_digit :: "char \<Rightarrow> bool" where
  \<comment> \<open>the class \<^verbatim>\<open>\d\<close>\<close>
  "is_digit c = (c \<in> set ''0123456789'')"

definition digit_value :: "char \<Rightarrow> nat" where
  "digit_value c = of_char c - of_char CHR ''0''"

definition number_of_digits :: "string \<Rightarrow> nat" where
  \<comment> \<open>unary \<^verbatim>\<open>+\<close> on a non-empty string of decimal digits\<close>
  "number_of_digits s = foldl (\<lambda>acc c. 10 * acc + digit_value c) 0 s"

definition after_last_slash :: "string \<Rightarrow> string" where
  "after_last_slash p = rev (takeWhile (\<lambda>c. c \<noteq> CHR ''/'') (rev p))"

definition match_status :: "string \<Rightarrow> string option" where
  \<comment> \<open>\<^verbatim>\<open>const [, status] = pathname.match(/\/_(\d+)+\.[^/]+$/) ?? []\<close>: the match can only
      start at the last slash, the digits are all the digits after the underscore, and the
      group holds them; \<open>None\<close> is \<^verbatim>\<open>undefined\<close>\<close>
  "match_status pathname =
     (if CHR ''/'' \<in> set pathname then
        (case after_last_slash pathname of
           [] \<Rightarrow> None
         | c # rest \<Rightarrow>
             (if c = CHR ''_'' \<and> takeWhile is_digit rest \<noteq> []
                 \<and> startsWith ''.'' (dropWhile is_digit rest)
                 \<and> 2 \<le> length (dropWhile is_digit rest)
              then Some (takeWhile is_digit rest) else None))
      else None)"

definition is_marker_file :: "string \<Rightarrow> string \<Rightarrow> bool" where
  \<comment> \<open>\<^verbatim>\<open>/\/_data\.[^/]+$/.test(pathname)\<close> with \<open>marker = ''_data.''\<close>, and the same for
      \<^verbatim>\<open>_middleware.\<close>\<close>
  "is_marker_file marker pathname =
     (CHR ''/'' \<in> set pathname \<and> startsWith marker (after_last_slash pathname)
      \<and> length marker < length (after_last_slash pathname))"

definition second_char_number :: "string option \<Rightarrow> nat option" where
  \<comment> \<open>\<^verbatim>\<open>+status?.[1]\<close>: \<^verbatim>\<open>status\<close> is the captured string (or \<^verbatim>\<open>undefined\<close>), so
      \<^verbatim>\<open>status?.[1]\<close> is its second character (or \<^verbatim>\<open>undefined\<close>), and the unary
      plus of \<^verbatim>\<open>undefined\<close> is \<^verbatim>\<open>NaN\<close>\<close>
  "second_char_number status =
     (case status of
        None \<Rightarrow> None
      | Some s \<Rightarrow> (if 1 < length s then Some (digit_value (s ! 1)) else None))"

definition status_number :: "string option \<Rightarrow> nat option" where
  \<comment> \<open>\<^verbatim>\<open>+status\<close>\<close>
  "status_number status =
     (case status of None \<Rightarrow> None | Some s \<Rightarrow> Some (number_of_digits s))"

definition http_error_status :: "nat option \<Rightarrow> bool" where
  \<comment> \<open>\<^verbatim>\<open>isErrorStatus\<close> of the standard library's \<^verbatim>\<open>http_status.ts\<close>: a client
      (4xx) or server (5xx) error status; \<^verbatim>\<open>NaN\<close> is none\<close>
  "http_error_status n = (case n of None \<Rightarrow> False | Some k \<Rightarrow> 400 \<le> k \<and> k < 600)"

datatype registration =
    Skipped
  | UseMiddleware
  | UseData
  | UseErrorHandler "nat option"
  | UsePage

definition index_file ::
  "(nat option \<Rightarrow> bool) \<Rightarrow> (string \<Rightarrow> bool) \<Rightarrow> string \<Rightarrow> registration" where
  \<comment> \<open>one iteration of the loop of \<^verbatim>\<open>indexRoutes\<close>, up to the hook it calls:
      \<open>ignorePattern\<close> is \<^verbatim>\<open>manifest.ignorePattern?.test\<close> and \<open>isErrorStatus\<close> the
      imported predicate\<close>
  "index_file isErrorStatus ignorePattern pathname =
     (let status = match_status pathname;
          isData = is_marker_file ''_data.'' pathname;
          isMiddleware = is_marker_file ''_middleware.'' pathname;
          isErrorHandler = isErrorStatus (second_char_number status)
      in if \<not> (isData \<or> isMiddleware \<or> isErrorHandler) \<and> ignorePattern pathname
         then Skipped
         else if isMiddleware then UseMiddleware
         else if isData then UseData
         else if isErrorHandler then UseErrorHandler (status_number status)
         else UsePage)"

section \<open>The static asset handler (\<^verbatim>\<open>indexStatic\<close>)\<close>

record URL =
  url_pathname :: string
  url_searchParams :: "(string \<times> string) list"

record File =
  file_pathname :: string
  file_type :: string
  file_etag :: string
  file_content :: string

record Response =
  resp_body :: "string option"
  resp_status :: nat
  resp_headers :: "string \<rightharpoonup> string"

definition truthy :: "string option \<Rightarrow> bool" where
  \<comment> \<open>the truth value of a \<^verbatim>\<open>string | null\<close>\<close>
  "truthy v = (case v of None \<Rightarrow> False | Some s \<Rightarrow> s \<noteq> [])"

definition strip_weak :: "string \<Rightarrow> string" where
  \<comment> \<open>\<^verbatim>\<open>.replace(/^W\//, "")\<close>\<close>
  "strip_weak t = (if startsWith ''W/'' t then drop 2 t else t)"

definition etagsMatch :: "string \<Rightarrow> string \<Rightarrow> bool" where
  "etagsMatch a b = (strip_weak a = strip_weak b)"

definition redirect :: "string \<Rightarrow> Response" where
  \<comment> \<open>\<^verbatim>\<open>Response.redirect(url)\<close>: status 302, a \<^verbatim>\<open>location\<close> header, no body\<close>
  "redirect target =
     \<lparr>resp_body = None, resp_status = 302, resp_headers = [''location'' \<mapsto> target]\<rparr>"

definition static_handler ::
  "string \<Rightarrow> string \<Rightarrow> (URL \<Rightarrow> string) \<Rightarrow> File \<Rightarrow> string option \<Rightarrow> URL \<Rightarrow> URL \<times> Response" where
  \<comment> \<open>the \<^verbatim>\<open>handler\<close> registered for a static file. \<open>INTERNAL_PREFIX\<close> and
      \<open>BUILD_ID\<close> are the imported constants, \<open>href\<close> the serialisation of a URL,
      \<open>if_none_match\<close> is \<^verbatim>\<open>req.headers.get("if-none-match")\<close> and \<open>url\<close> is
      \<^verbatim>\<open>ctx.url\<close>, which the handler may update and which is returned with the response\<close>
  "static_handler INTERNAL_PREFIX BUILD_ID href file if_none_match url =
     (let cacheKey = INTERNAL_PREFIX @ ''_cache_id'';
          cacheId = map_of (url_searchParams url) cacheKey;
          cacheControl = ''public, max-age=31536000, immutable'';
          headers = [''content-type'' \<mapsto> file_type file,
                     ''vary'' \<mapsto> ''If-None-Match'',
                     ''etag'' \<mapsto> file_etag file]
      in if truthy cacheId \<and> cacheId \<noteq> Some BUILD_ID then
           (let url' = url\<lparr>url_searchParams :=
                             filter (\<lambda>kv. fst kv \<noteq> cacheKey) (url_searchParams url)\<rparr>
            in (url', redirect (href url')))
         else
           (let headers' = (if truthy cacheId
                            then headers(''cache-control'' \<mapsto> cacheControl) else headers)
            in (url,
                if etagsMatch (file_etag file)
                     (case if_none_match of None \<Rightarrow> [] | Some h \<Rightarrow> h)
                then \<lparr>resp_body = None, resp_status = 304, resp_headers = headers'\<rparr>
                else \<lparr>resp_body = Some (file_content file), resp_status = 200,
                      resp_headers = headers'\<rparr>)))"

section \<open>The dispatch engine (\<^verbatim>\<open>listen.ts\<close>)\<close>

subsection \<open>Data\<close>

definition RequestMethods :: "string list" where
  "RequestMethods = [''POST'', ''GET'', ''PUT'', ''PATCH'', ''DELETE'', ''*'']"

datatype bodyType = Json | Text | FormData | Blob

datatype body_init = BodyString string | BodyStream string

type_synonym socket = nat

datatype message =
    StringMessage string
  | BinaryMessage string
  | OtherMessage string

datatype log_entry = LogRequest string string string | LogError string

record Request =
  request_method :: string
  request_href :: string
  request_pathname :: string
  request_headers :: "string \<rightharpoonup> string"
  request_body :: "string option"
  remote_hostname :: string

text \<open>
  The state one request runs in. The fields \<open>req_\<close>, \<open>res_\<close>, \<open>upgrade_available\<close>
  and \<open>channel_name\<close> are the fields of \<^verbatim>\<open>ctx\<close>; \<open>res_frozen\<close> records
  \<^verbatim>\<open>Object.freeze(ctx.res)\<close>; \<open>req_var\<close>, \<open>socket_var\<close> and \<open>override_var\<close> are
  the variables \<^verbatim>\<open>req\<close>, \<^verbatim>\<open>socket\<close> and \<^verbatim>\<open>override\<close> of the request's closure (the
  handshake response is named by its socket). The rest is what outlives the request:
  \<open>activeSocketConnections\<close> (a JavaScript \<^verbatim>\<open>Set\<close> is a list without duplicates, in
  insertion order), the next handle \<^verbatim>\<open>Deno.upgradeWebSocket\<close> will hand out, the
  messages given to \<^verbatim>\<open>send\<close>, the lines given to \<^verbatim>\<open>log\<close>, and \<open>world\<close>: anything
  else a callback reads or writes.
\<close>

record ('b, 'w) state =
  req_method :: string
  req_ip :: string
  req_href :: string
  req_pathname :: string
  req_body :: "'b option"
  req_bodyType :: "bodyType option"
  req_pathParams :: "string \<rightharpoonup> string"
  req_headers :: "string \<rightharpoonup> string"
  res_body :: body_init
  res_status :: nat
  res_headers :: "string \<rightharpoonup> string"
  res_sent :: bool
  res_frozen :: bool
  upgrade_available :: bool
  channel_name :: string
  req_var :: Request
  socket_var :: "socket option"
  override_var :: "socket option"
  activeSocketConnections :: "string \<rightharpoonup> socket list"
  next_socket :: socket
  delivered :: "(socket \<times> message) list"
  logged :: "log_entry list"
  world :: 'w

text \<open>
  A call either returns or throws; both leave a state behind. A \<^verbatim>\<open>Callback\<close> is any
  function of the state with such an outcome.
\<close>

datatype 's outcome = Returned 's | Threw 's

type_synonym ('b, 'w) Callback = "('b, 'w) state \<Rightarrow> ('b, 'w) state outcome"

definition andThen :: "'s outcome \<Rightarrow> ('s \<Rightarrow> 's outcome) \<Rightarrow> 's outcome" where
  \<comment> \<open>sequencing: the next statement runs only when the one before returned\<close>
  "andThen r f = (case r of Returned s \<Rightarrow> f s | Threw s \<Rightarrow> Threw s)"

definition orCatch :: "'s outcome \<Rightarrow> ('s \<Rightarrow> 's outcome) \<Rightarrow> 's outcome" where
  \<comment> \<open>\<^verbatim>\<open>try { r } catch { h }\<close>\<close>
  "orCatch r h = (case r of Returned s \<Rightarrow> Returned s | Threw s \<Rightarrow> h s)"

definition returned :: "'s outcome \<Rightarrow> bool" where
  "returned r = (case r of Returned s \<Rightarrow> True | Threw s \<Rightarrow> False)"

definition final_state :: "'s outcome \<Rightarrow> 's" where
  "final_state r = (case r of Returned s \<Rightarrow> s | Threw s \<Rightarrow> s)"

text \<open>
  What the sources import from the platform: the table of status texts, the MIME lookup,
  \<^verbatim>\<open>basename\<close>, the file system (\<open>None\<close>: reading or opening the file fails), the four body
  decoders of a \<^verbatim>\<open>Request\<close> (\<open>None\<close>: the promise rejects), \<^verbatim>\<open>test\<close> and
  \<^verbatim>\<open>exec(...)?.pathname?.groups\<close> of a \<^verbatim>\<open>URLPattern\<close>, and whether
  \<^verbatim>\<open>Deno.upgradeWebSocket\<close> accepts a request: it throws a \<^verbatim>\<open>TypeError\<close> when it does
  not, as for a request that names \<^verbatim>\<open>websocket\<close> in its \<^verbatim>\<open>upgrade\<close> header but lacks
  \<^verbatim>\<open>connection: Upgrade\<close> or a \<^verbatim>\<open>sec-websocket-key\<close>.
\<close>

record ('b, 'p) platform =
  HTTPStatusText :: "nat \<rightharpoonup> string"
  contentType :: "string \<rightharpoonup> string"
  basename :: "string \<Rightarrow> string"
  files :: "string \<rightharpoonup> string"
  decode_body :: "bodyType \<Rightarrow> string \<Rightarrow> 'b option"
  pattern_test :: "'p \<Rightarrow> string \<Rightarrow> bool"
  pattern_exec :: "'p \<Rightarrow> string \<Rightarrow> (string \<rightharpoonup> string) option"
  accepts_upgrade :: "Request \<Rightarrow> bool"

definition digit_char :: "nat \<Rightarrow> char" where
  \<comment> \<open>the decimal digit of a number below ten\<close>
  "digit_char n = ''0123456789'' ! n"

fun string_of_nat :: "nat \<Rightarrow> string" where
  \<comment> \<open>a status in a template string\<close>
  "string_of_nat n =
     (if n < 10 then [digit_char n]
      else string_of_nat (n div 10) @ [digit_char (n mod 10)])"

declare string_of_nat.simps [simp del]

subsection \<open>The response facet\<close>

text \<open>
  The sources are modules, so strict code: an assignment to a property of a frozen object
  throws a \<^verbatim>\<open>TypeError\<close> and changes nothing. \<^verbatim>\<open>Object.freeze\<close> is shallow: it freezes
  the properties of \<^verbatim>\<open>ctx.res\<close>, not the \<^verbatim>\<open>Headers\<close> object that the property
  \<^verbatim>\<open>headers\<close> refers to, whose \<^verbatim>\<open>set\<close> goes on working.
\<close>

definition assign_body :: "body_init \<Rightarrow> ('b, 'w) Callback" where
  \<comment> \<open>\<^verbatim>\<open>ctx.res.body = v\<close>\<close>
  "assign_body v s = (if res_frozen s then Threw s else Returned (s\<lparr>res_body := v\<rparr>))"

definition assign_status :: "nat \<Rightarrow> ('b, 'w) Callback" where
  \<comment> \<open>\<^verbatim>\<open>ctx.res.status = v\<close>\<close>
  "assign_status v s = (if res_frozen s then Threw s else Returned (s\<lparr>res_status := v\<rparr>))"

definition assign_sent :: "bool \<Rightarrow> ('b, 'w) Callback" where
  \<comment> \<open>\<^verbatim>\<open>ctx.res.sent = v\<close>\<close>
  "assign_sent v s = (if res_frozen s then Threw s else Returned (s\<lparr>res_sent := v\<rparr>))"

definition assign_headers :: "(string \<rightharpoonup> string) \<Rightarrow> ('b, 'w) Callback" where
  \<comment> \<open>\<^verbatim>\<open>ctx.res.headers = v\<close>: the property, not the object it refers to\<close>
  "assign_headers v s = (if res_frozen s then Threw s else Returned (s\<lparr>res_headers := v\<rparr>))"

definition headers_set :: "string \<Rightarrow> string \<Rightarrow> ('b, 'w) state \<Rightarrow> ('b, 'w) state" where
  \<comment> \<open>\<^verbatim>\<open>ctx.res.headers.set(k, v)\<close>\<close>
  "headers_set k v s = s\<lparr>res_headers := (res_headers s)(k \<mapsto> v)\<rparr>"

definition sendStatus :: "('b, 'p) platform \<Rightarrow> nat \<Rightarrow> ('b, 'w) Callback" where
  "sendStatus P status s =
     andThen
       (assign_body (BodyString (string_of_nat status @ '' '' @
          (case HTTPStatusText P status of None \<Rightarrow> [] | Some t \<Rightarrow> t))) s)
       (assign_status status)"

definition inferContentType :: "('b, 'p) platform \<Rightarrow> string \<Rightarrow> ('b, 'w) Callback" where
  "inferContentType P lookup s =
     (case contentType P lookup of
        None \<Rightarrow> Returned s
      | Some inferredType \<Rightarrow> Returned (headers_set ''content-type'' inferredType s))"

definition sendJSON :: "('b, 'p) platform \<Rightarrow> string \<Rightarrow> ('b, 'w) Callback" where
  \<comment> \<open>\<open>json\<close> is \<^verbatim>\<open>JSON.stringify(data, null, 2)\<close>\<close>
  "sendJSON P json s =
     andThen (andThen (assign_body (BodyString json) s) (inferContentType P ''json''))
       (assign_status 200)"

definition sendFile :: "('b, 'p) platform \<Rightarrow> string \<Rightarrow> ('b, 'w) Callback" where
  "sendFile P filepath s =
     orCatch
       (case files P filepath of
          None \<Rightarrow> Threw s
        | Some content \<Rightarrow>
            andThen (andThen (assign_body (BodyString content) s)
                       (inferContentType P (basename P filepath)))
              (assign_status 200))
       (sendStatus P 404)"

definition sendFileStream :: "('b, 'p) platform \<Rightarrow> string \<Rightarrow> ('b, 'w) Callback" where
  "sendFileStream P filepath s =
     orCatch
       (case files P filepath of
          None \<Rightarrow> Threw s
        | Some content \<Rightarrow>
            andThen (andThen (assign_body (BodyStream content) s)
                       (inferContentType P (basename P filepath)))
              (assign_status 200))
       (sendStatus P 404)"

definition markForDownload :: "string option \<Rightarrow> ('b, 'w) Callback" where
  "markForDownload filename s =
     Returned (headers_set ''content-disposition''
       (''attachment'' @
          (if truthy filename
           then ''; filename='' @ [CHR 0x22] @ the filename @ [CHR 0x22] else [])) s)"

subsection \<open>Sockets and channels\<close>

definition set_add :: "'a \<Rightarrow> 'a list \<Rightarrow> 'a list" where
  \<comment> \<open>\<^verbatim>\<open>Set.prototype.add\<close>\<close>
  "set_add x xs = (if x \<in> set xs then xs else xs @ [x])"


definition addSocketToChannel ::
  "string \<Rightarrow> socket \<Rightarrow> (string \<rightharpoonup> socket list) \<Rightarrow> (string \<rightharpoonup> socket list)" where
  "addSocketToChannel name sock conns =
     (case conns name of
        None \<Rightarrow> conns(name \<mapsto> set_add sock [])
      | Some members \<Rightarrow> conns(name \<mapsto> set_add sock members))"

definition upgrade_socket ::
  "('b, 'p) platform \<Rightarrow> ('b, 'w) state \<Rightarrow>
     ('b, 'w) state + socket option \<times> ('b, 'w) state" where
  \<comment> \<open>\<^verbatim>\<open>ctx.upgrade.socket()\<close>: \<open>Inr\<close> is the value returned (\<open>None\<close> for
      \<^verbatim>\<open>undefined\<close>) with the state left; \<open>Inl\<close> is the state left when
      \<^verbatim>\<open>Deno.upgradeWebSocket(req)\<close> throws, which is before any assignment. When it
      accepts the request it hands out the next handle.\<close>
  "upgrade_socket P s =
     (if \<not> upgrade_available s then Inr (None, s)
      else if socket_var s \<noteq> None \<or> res_sent s then Inr (socket_var s, s)
      else if \<not> accepts_upgrade P (req_var s) then Inl s
      else
        (let sock = next_socket s;
             s1 = s\<lparr>next_socket := Suc sock, socket_var := Some sock,
                    override_var := Some sock\<rparr>
         in Inr (Some sock,
                 s1\<lparr>activeSocketConnections :=
                       addSocketToChannel (channel_name s1) sock
                         (activeSocketConnections s1)\<rparr>)))"




subsection \<open>The route registry\<close>

type_synonym ('b, 'w, 'p) route = "string \<times> 'p \<times> ('b, 'w) Callback"

definition strip_trailing_slash :: "string \<Rightarrow> string" where
  \<comment> \<open>\<^verbatim>\<open>href.replaceAll(/\/$/g, "")\<close>: one slash at the end is removed\<close>
  "strip_trailing_slash href = (if endsWith ''/'' href then dropEnd 1 href else href)"

fun find_route ::
  "('b, 'p) platform \<Rightarrow> string \<Rightarrow> string \<Rightarrow> ('b, 'w, 'p) route list \<Rightarrow>
     (('b, 'w) Callback \<times> (string \<rightharpoonup> string)) option" where
  \<comment> \<open>the loop of \<^verbatim>\<open>getRoute\<close>; \<^verbatim>\<open>["*", route[0]].includes(method)\<close> asks whether the
      request's method is the string \<^verbatim>\<open>"*"\<close> or the route's method\<close>
  "find_route P method href [] = None"
| "find_route P method href (route # rest) =
     (if \<not> (method = ''*'' \<or> method = fst route) then find_route P method href rest
      else if \<not> pattern_test P (fst (snd route)) href then find_route P method href rest
      else Some (snd (snd route),
                 (case pattern_exec P (fst (snd route)) href of
                    None \<Rightarrow> Map.empty
                  | Some groups \<Rightarrow> groups)))"

definition getRoute ::
  "('b, 'p) platform \<Rightarrow> ('b, 'w, 'p) route list \<Rightarrow> string \<Rightarrow> string \<Rightarrow>
     (('b, 'w) Callback \<times> (string \<rightharpoonup> string)) option" where
  "getRoute P routes method href = find_route P method (strip_trailing_slash href) routes"

subsection \<open>Serving one request\<close>

definition new_context ::
  "Request \<Rightarrow> (string \<rightharpoonup> socket list) \<Rightarrow> socket \<Rightarrow> (socket \<times> message) list \<Rightarrow>
     log_entry list \<Rightarrow> 'w \<Rightarrow> ('b, 'w) state" where
  \<comment> \<open>the object \<^verbatim>\<open>ctx\<close> and the variables \<^verbatim>\<open>override\<close> and \<^verbatim>\<open>socket\<close> as
      \<^verbatim>\<open>serve\<close>'s handler creates them, beside what the process holds already\<close>
  "new_context request conns fresh sends lines w =
     \<lparr>req_method = request_method request,
      req_ip = remote_hostname request,
      req_href = request_href request,
      req_pathname = request_pathname request,
      req_body = None,
      req_bodyType = None,
      req_pathParams = Map.empty,
      req_headers = request_headers request,
      res_body = BodyString [],
      res_status = 200,
      res_headers = Map.empty,
      res_sent = False,
      res_frozen = False,
      upgrade_available = (request_headers request ''upgrade'' = Some ''websocket''),
      channel_name = [],
      req_var = request,
      socket_var = None,
      override_var = None,
      activeSocketConnections = conns,
      next_socket = fresh,
      delivered = sends,
      logged = lines,
      world = w\<rparr>"

definition read_body ::
  "('b, 'p) platform \<Rightarrow> bodyType \<Rightarrow> string \<Rightarrow> ('b, 'w) Callback" where
  \<comment> \<open>\<^verbatim>\<open>ctx.req.body = await req.json(); ctx.req.bodyType = "json";\<close> and its three
      siblings\<close>
  "read_body P kind raw s =
     (case decode_body P kind raw of
        None \<Rightarrow> Threw s
      | Some b \<Rightarrow> Returned (s\<lparr>req_body := Some b, req_bodyType := Some kind\<rparr>))"

definition parse_body :: "('b, 'p) platform \<Rightarrow> Request \<Rightarrow> ('b, 'w) Callback" where
  "parse_body P request s =
     (case request_body request of
        None \<Rightarrow> Returned s
      | Some raw \<Rightarrow>
          (let contentType = (case request_headers request ''content-type'' of
                                None \<Rightarrow> [] | Some v \<Rightarrow> v);
               isJSON = includes_str ''application/json'' contentType;
               isText = includes_str ''text/plain'' contentType;
               isFormData = (includes_str ''application/x-www-form-urlencoded'' contentType
                             \<or> includes_str ''multipart/form-data'' contentType)
           in if isJSON then read_body P Json raw s
              else if isText then read_body P Text raw s
              else if isFormData then read_body P FormData raw s
              else read_body P Blob raw s))"

definition route_request ::
  "('b, 'p) platform \<Rightarrow> ('b, 'w, 'p) route list \<Rightarrow> ('b, 'w) Callback" where
  \<comment> \<open>\<^verbatim>\<open>const route = getRoute(...); if (route) { ... } else ctx.res.sendStatus(HTTPStatus.NotFound);\<close>\<close>
  "route_request P routes s =
     (case getRoute P routes (req_method s) (req_href s) of
        Some route \<Rightarrow> fst route (s\<lparr>req_pathParams := snd route\<rparr>)
      | None \<Rightarrow> sendStatus P 404 s)"

fun run_middleware :: "('b, 'w) Callback list \<Rightarrow> ('b, 'w) Callback" where
  \<comment> \<open>\<^verbatim>\<open>for (const callback of middleware) await callback(ctx);\<close>\<close>
  "run_middleware [] s = Returned s"
| "run_middleware (callback # rest) s = andThen (callback s) (run_middleware rest)"

definition try_block ::
  "('b, 'p) platform \<Rightarrow> ('b, 'w, 'p) route list \<Rightarrow> ('b, 'w) Callback list \<Rightarrow> Request \<Rightarrow>
     ('b, 'w) Callback" where
  "try_block P routes middleware request s =
     andThen
       (andThen
          (parse_body P request
             (s\<lparr>logged := logged s @ [LogRequest (req_ip s) (req_method s) (req_pathname s)]\<rparr>))
          (route_request P routes))
       (run_middleware middleware)"

definition catch_block :: "('b, 'p) platform \<Rightarrow> ('b, 'w) Callback" where
  "catch_block P s =
     sendStatus P 500 (s\<lparr>logged := logged s @ [LogError (req_ip s)]\<rparr>)"

definition finalize :: "('b, 'w) Callback" where
  \<comment> \<open>\<^verbatim>\<open>(ctx.res as Mutable<...>).sent = true; Object.freeze(ctx.res);\<close>\<close>
  "finalize s = andThen (assign_sent True s) (\<lambda>s'. Returned (s'\<lparr>res_frozen := True\<rparr>))"

definition serve ::
  "('b, 'p) platform \<Rightarrow> ('b, 'w, 'p) route list \<Rightarrow> ('b, 'w) Callback list \<Rightarrow> Request \<Rightarrow>
     ('b, 'w) Callback" where
  \<comment> \<open>the handler given to \<^verbatim>\<open>serve\<close>, run on the state \<open>new_context\<close> makes\<close>
  "serve P routes middleware request s =
     andThen
       (if req_method s \<in> set RequestMethods
        then orCatch (try_block P routes middleware request s) (catch_block P)
        else sendStatus P 501 s)
       finalize"

datatype served = Handshake socket | HttpResponse body_init nat "string \<rightharpoonup> string"

definition response_of :: "('b, 'w) state \<Rightarrow> served" where
  \<comment> \<open>\<^verbatim>\<open>override ?? new Response(ctx.res.body, { status, headers })\<close>\<close>
  "response_of s =
     (case override_var s of
        Some sock \<Rightarrow> Handshake sock
      | None \<Rightarrow> HttpResponse (res_body s) (res_status s) (res_headers s))"

section \<open>A concrete platform, requests and callbacks\<close>

text \<open>
  Instances at which the definitions above are evaluated: a platform whose patterns are
  literal pathnames on \<^verbatim>\<open>http://localhost:3000\<close>, whose decoders keep the raw text and
  whose upgrade wants the three headers of a handshake, requests without a body, and
  callbacks that append their name to \<open>world\<close>.
\<close>

definition literal_platform :: "(string, string) platform" where
  "literal_platform =
     \<lparr>HTTPStatusText = [404 \<mapsto> ''Not Found'', 500 \<mapsto> ''Internal Server Error'',
                        501 \<mapsto> ''Not Implemented''],
      contentType = [''json'' \<mapsto> ''application/json; charset=UTF-8''],
      basename = after_last_slash,
      files = Map.empty,
      decode_body = (\<lambda>kind raw. Some raw),
      pattern_test = (\<lambda>p href. href = ''http://localhost:3000'' @ p),
      pattern_exec = (\<lambda>p href. if href = ''http://localhost:3000'' @ p
                                   then Some Map.empty else None),
      accepts_upgrade = (\<lambda>r. request_headers r ''upgrade'' = Some ''websocket''
                               \<and> request_headers r ''connection'' = Some ''Upgrade''
                               \<and> request_headers r ''sec-websocket-key'' \<noteq> None)\<rparr>"

definition handshake_headers :: "string \<rightharpoonup> string" where
  \<comment> \<open>the headers of a WebSocket handshake\<close>
  "handshake_headers =
     [''upgrade'' \<mapsto> ''websocket'', ''connection'' \<mapsto> ''Upgrade'',
      ''sec-websocket-key'' \<mapsto> ''dGhlIHNhbXBsZSBub25jZQ=='']"

definition local_request :: "string \<Rightarrow> string \<Rightarrow> (string \<rightharpoonup> string) \<Rightarrow> Request" where
  "local_request method path headers =
     \<lparr>request_method = method,
      request_href = ''http://localhost:3000'' @ path,
      request_pathname = path,
      request_headers = headers,
      request_body = None,
      remote_hostname = ''127.0.0.1''\<rparr>"

definition first_context :: "Request \<Rightarrow> (string, string list) state" where
  \<comment> \<open>the context of a request to a process that has served nothing yet\<close>
  "first_context request = new_context request Map.empty 0 [] [] []"

definition record_call :: "string \<Rightarrow> (string, string list) Callback" where
  "record_call name s = Returned (s\<lparr>world := world s @ [name]\<rparr>)"

definition opens_socket :: "(string, string list) Callback" where
  \<comment> \<open>a handler that asks for the socket\<close>
  "opens_socket s =
     (case upgrade_socket literal_platform s of
        Inl s1 \<Rightarrow> Threw s1
      | Inr r \<Rightarrow> Returned (snd r))"

section \<open>Properties\<close>

subsection \<open>Unfolding the model\<close>

lemmas response_defs = assign_body_def assign_status_def assign_sent_def assign_headers_def
  headers_set_def sendStatus_def inferContentType_def sendJSON_def sendFile_def
  sendFileStream_def markForDownload_def andThen_def orCatch_def

lemmas serve_defs = serve_def try_block_def catch_block_def finalize_def parse_body_def
  read_body_def route_request_def getRoute_def strip_trailing_slash_def endsWith_def
  dropEnd_def RequestMethods_def new_context_def

lemmas example_defs = literal_platform_def local_request_def first_context_def
  record_call_def opens_socket_def returned_def final_state_def handshake_headers_def

lemma string_of_nat_status:
  "string_of_nat 404 = ''404''" "string_of_nat 500 = ''500''" "string_of_nat 501 = ''501''"
  by (simp_all add: string_of_nat.simps digit_char_def)

subsection \<open>Pattern compiler\<close>

lemma split_blog_slug:
  "split CHR ''/'' ''/blog/[slug]/index'' = ['''', ''blog'', ''[slug]'', ''index'']"
  by simp

lemma convert_part_literal_slug: "convert_part ''[slug]'' = ''[slug]''"
  by (simp add: convert_part_def endsWith_def startsWith_def)

text \<open>
  The only parts the compiler rewrites are the repeated groups \<^verbatim>\<open>[...name]\<close>; every other
  part, a single group \<^verbatim>\<open>[name]\<close> included, is passed on as it is.
\<close>

lemma convert_part_cases:
  "convert_part part =
     (if endsWith '']'' part \<and> startsWith ''[...'' part
      then '':'' @ slice_to_last 4 part @ ''*'' else part)"
  by (simp add: convert_part_def Let_def)

text \<open>
  C4. The route file \<^verbatim>\<open>/blog/[slug]/index.md\<close>, extension stripped, is compiled to the
  pathname \<^verbatim>\<open>/blog/[slug]\<close>: the final \<^verbatim>\<open>index\<close> segment is elided, but the
  \<^verbatim>\<open>[slug]\<close> segment is left as it is and does not become the named parameter
  \<^verbatim>\<open>:slug\<close>, so the pathname is not \<^verbatim>\<open>/blog/:slug\<close>.
\<close>

theorem pathToPattern_blog_slug:
  "pathToPattern ''/blog/[slug]/index'' = ''/blog/[slug]'' \<and>
   pathToPattern ''/blog/[slug]/index'' \<noteq> ''/blog/:slug''"
  by (simp add: pathToPattern_def convert_part_def endsWith_def startsWith_def
      strip_index_def nested_marker_def normalise_slashes_def dropEnd_def)

subsection \<open>The role of a route file\<close>

lemma digit_value_small: "is_digit c \<Longrightarrow> digit_value c < 10"
  by (auto simp: is_digit_def digit_value_def)

lemma match_status_digits: "match_status p = Some s \<Longrightarrow> list_all is_digit s"
  by (auto simp: match_status_def list_all_iff split: if_splits list.splits
      dest: set_takeWhileD)

lemma second_char_number_small:
  assumes "second_char_number (match_status p) = Some k"
  shows "k < 10"
proof -
  from assms obtain s where s: "match_status p = Some s" "1 < length s"
      "k = digit_value (s ! 1)"
    by (auto simp: second_char_number_def split: option.splits if_splits)
  from s(1) have "list_all is_digit s" by (rule match_status_digits)
  with s(2) have "is_digit (s ! 1)" by (simp add: list_all_length)
  with s(3) show ?thesis by (simp add: digit_value_small)
qed

text \<open>
  Whatever the file is called, \<^verbatim>\<open>isErrorStatus\<close> is asked about \<^verbatim>\<open>NaN\<close> or about one
  decimal digit, so a predicate that holds of error statuses only never makes a file an
  error handler.
\<close>

lemma index_file_never_error_handler:
  assumes "\<not> isErrorStatus None" and "\<forall>k<10. \<not> isErrorStatus (Some k)"
  shows "index_file isErrorStatus ignorePattern pathname \<noteq> UseErrorHandler n"
proof -
  have "\<not> isErrorStatus (second_char_number (match_status pathname))"
  proof (cases "second_char_number (match_status pathname)")
    case None
    with assms(1) show ?thesis by simp
  next
    case (Some k)
    then have "k < 10" by (rule second_char_number_small)
    with assms(2) Some show ?thesis by simp
  qed
  then show ?thesis by (simp add: index_file_def Let_def)
qed

text \<open>
  C7. The route file \<^verbatim>\<open>/_404.md\<close> matches \<^verbatim>\<open>_<status>.<ext>\<close> with the error status
  404, yet it is indexed as a page, not as an error handler, and when the ignore pattern
  matches its path it is skipped: the status test reads the second character of the
  captured digits (\<^verbatim>\<open>+status?.[1]\<close>, here 0) instead of the captured number.
\<close>

theorem index_file_status_file:
  "match_status ''/_404.md'' = Some ''404'' \<and>
   http_error_status (status_number (match_status ''/_404.md'')) \<and>
   index_file http_error_status (\<lambda>p. False) ''/_404.md'' = UsePage \<and>
   index_file http_error_status (\<lambda>p. p = ''/_404.md'') ''/_404.md'' = Skipped"
  by (simp add: index_file_def second_char_number_def match_status_def
      after_last_slash_def is_digit_def startsWith_def is_marker_file_def digit_value_def
      status_number_def http_error_status_def number_of_digits_def)

subsection \<open>The static asset handler\<close>

text \<open>
  C5, as stated, fails: with a cache id of an older build the handler redirects, whatever
  \<^verbatim>\<open>if-none-match\<close> says. Here the header matches the ETag under weak comparison, and
  the response is a 302 without an \<^verbatim>\<open>etag\<close> header, not a 304.
\<close>

theorem static_stale_cache_id_counterexample:
  "etagsMatch ''abc'' ''W/abc'' \<and>
   resp_status (snd (static_handler ''_nadder'' ''NEW'' url_pathname
      \<lparr>file_pathname = ''/style.css'', file_type = ''text/css'', file_etag = ''abc'',
        file_content = ''body {}''\<rparr>
      (Some ''W/abc'')
      \<lparr>url_pathname = ''/style.css'',
        url_searchParams = [(''_nadder_cache_id'', ''OLD'')]\<rparr>)) = 302 \<and>
   resp_headers (snd (static_handler ''_nadder'' ''NEW'' url_pathname
      \<lparr>file_pathname = ''/style.css'', file_type = ''text/css'', file_etag = ''abc'',
        file_content = ''body {}''\<rparr>
      (Some ''W/abc'')
      \<lparr>url_pathname = ''/style.css'',
        url_searchParams = [(''_nadder_cache_id'', ''OLD'')]\<rparr>)) ''etag'' = None"
  by (simp add: static_handler_def truthy_def etagsMatch_def strip_weak_def
      startsWith_def redirect_def)

text \<open>
  C5, amended. When the request carries no cache id, an empty one, or the id of the
  current build, the handler leaves the URL alone and sets the \<^verbatim>\<open>etag\<close> header; it
  answers 304 without a body when the asset's ETag and the \<^verbatim>\<open>if-none-match\<close> header (the
  empty string when the header is absent) are equal once a leading \<^verbatim>\<open>W/\<close> is removed
  from each, and 200 with the asset's content otherwise.
\<close>

theorem static_conditional_response:
  assumes "map_of (url_searchParams url) (INTERNAL_PREFIX @ ''_cache_id'') = None
         \<or> map_of (url_searchParams url) (INTERNAL_PREFIX @ ''_cache_id'') = Some []
         \<or> map_of (url_searchParams url) (INTERNAL_PREFIX @ ''_cache_id'') = Some BUILD_ID"
  shows "fst (static_handler INTERNAL_PREFIX BUILD_ID href file if_none_match url) = url \<and>
     resp_headers (snd (static_handler INTERNAL_PREFIX BUILD_ID href file if_none_match url))
        ''etag'' = Some (file_etag file) \<and>
     resp_status (snd (static_handler INTERNAL_PREFIX BUILD_ID href file if_none_match url)) =
       (if etagsMatch (file_etag file) (case if_none_match of None \<Rightarrow> [] | Some h \<Rightarrow> h)
        then 304 else 200) \<and>
     resp_body (snd (static_handler INTERNAL_PREFIX BUILD_ID href file if_none_match url)) =
       (if etagsMatch (file_etag file) (case if_none_match of None \<Rightarrow> [] | Some h \<Rightarrow> h)
        then None else Some (file_content file))"
  using assms by (auto simp: static_handler_def truthy_def Let_def)

text \<open>
  C5, witness: the asset with ETag \<^verbatim>\<open>abc\<close>, requested with the id of the current build
  and \<^verbatim>\<open>if-none-match: W/abc\<close>, is answered 304 without a body.
\<close>

theorem static_conditional_response_witness:
  "resp_status (snd (static_handler ''_nadder'' ''NEW'' url_pathname
      \<lparr>file_pathname = ''/style.css'', file_type = ''text/css'', file_etag = ''abc'',
        file_content = ''body {}''\<rparr>
      (Some ''W/abc'')
      \<lparr>url_pathname = ''/style.css'',
        url_searchParams = [(''_nadder_cache_id'', ''NEW'')]\<rparr>)) = 304 \<and>
   resp_body (snd (static_handler ''_nadder'' ''NEW'' url_pathname
      \<lparr>file_pathname = ''/style.css'', file_type = ''text/css'', file_etag = ''abc'',
        file_content = ''body {}''\<rparr>
      (Some ''W/abc'')
      \<lparr>url_pathname = ''/style.css'',
        url_searchParams = [(''_nadder_cache_id'', ''NEW'')]\<rparr>)) = None"
  using static_conditional_response [of
      "\<lparr>url_pathname = ''/style.css'', url_searchParams = [(''_nadder_cache_id'', ''NEW'')]\<rparr>"
      "''_nadder''" "''NEW''" url_pathname
      "\<lparr>file_pathname = ''/style.css'', file_type = ''text/css'', file_etag = ''abc'',
        file_content = ''body {}''\<rparr>"
      "Some ''W/abc''"]
  by (simp add: etagsMatch_def strip_weak_def startsWith_def)

text \<open>
  C6, as stated, fails: a cache id parameter with an empty value differs from the build id
  \<^verbatim>\<open>NEW\<close>, and the handler answers 200, not a redirect.
\<close>

theorem static_empty_cache_id_counterexample:
  "map_of [(''_nadder_cache_id'', [])] ''_nadder_cache_id'' = Some [] \<and>
   [] \<noteq> ''NEW'' \<and>
   resp_status (snd (static_handler ''_nadder'' ''NEW'' url_pathname
      \<lparr>file_pathname = ''/style.css'', file_type = ''text/css'', file_etag = ''abc'',
        file_content = ''body {}''\<rparr>
      None
      \<lparr>url_pathname = ''/style.css'',
        url_searchParams = [(''_nadder_cache_id'', [])]\<rparr>)) = 200"
  by (simp add: static_handler_def truthy_def etagsMatch_def strip_weak_def
      startsWith_def redirect_def)

text \<open>
  C6, amended. When the value of the cache id parameter is not empty and differs from the
  build id, the handler removes every cache id parameter from the URL, keeps the path and
  the other parameters, and answers 302 without a body, with the updated URL as
  \<^verbatim>\<open>location\<close>.
\<close>

theorem static_redirect:
  assumes "map_of (url_searchParams url) (INTERNAL_PREFIX @ ''_cache_id'') = Some v"
    and "v \<noteq> []" and "v \<noteq> BUILD_ID"
  shows "static_handler INTERNAL_PREFIX BUILD_ID href file if_none_match url =
     (url\<lparr>url_searchParams :=
            filter (\<lambda>kv. fst kv \<noteq> INTERNAL_PREFIX @ ''_cache_id'') (url_searchParams url)\<rparr>,
      \<lparr>resp_body = None, resp_status = 302,
       resp_headers = [''location'' \<mapsto>
          href (url\<lparr>url_searchParams :=
            filter (\<lambda>kv. fst kv \<noteq> INTERNAL_PREFIX @ ''_cache_id'')
              (url_searchParams url)\<rparr>)]\<rparr>)"
  using assms by (simp add: static_handler_def truthy_def Let_def redirect_def)

text \<open>
  C6, witness: \<^verbatim>\<open>/style.css\<close> requested with the cache id \<^verbatim>\<open>OLD\<close> while the build id
  is \<^verbatim>\<open>NEW\<close> is redirected with status 302 to \<^verbatim>\<open>/style.css\<close> without parameters.
\<close>

theorem static_redirect_witness:
  "fst (static_handler ''_nadder'' ''NEW'' url_pathname
      \<lparr>file_pathname = ''/style.css'', file_type = ''text/css'', file_etag = ''abc'',
        file_content = ''body {}''\<rparr>
      None
      \<lparr>url_pathname = ''/style.css'',
        url_searchParams = [(''_nadder_cache_id'', ''OLD'')]\<rparr>) =
     \<lparr>url_pathname = ''/style.css'', url_searchParams = []\<rparr> \<and>
   resp_status (snd (static_handler ''_nadder'' ''NEW'' url_pathname
      \<lparr>file_pathname = ''/style.css'', file_type = ''text/css'', file_etag = ''abc'',
        file_content = ''body {}''\<rparr>
      None
      \<lparr>url_pathname = ''/style.css'',
        url_searchParams = [(''_nadder_cache_id'', ''OLD'')]\<rparr>)) = 302"
  using static_redirect [of
      "\<lparr>url_pathname = ''/style.css'', url_searchParams = [(''_nadder_cache_id'', ''OLD'')]\<rparr>"
      "''_nadder''" "''OLD''" "''NEW''" url_pathname
      "\<lparr>file_pathname = ''/style.css'', file_type = ''text/css'', file_etag = ''abc'',
        file_content = ''body {}''\<rparr>"
      None]
  by simp

subsection \<open>The route registry\<close>

text \<open>
  What \<^verbatim>\<open>getRoute\<close> does return: the callback and groups of the first entry, in
  registration order, that passes the method test as the code writes it and whose pattern
  matches the address without its trailing slash; so an address and the same address with
  a slash appended resolve alike.
\<close>

lemma find_route_first_match:
  "find_route P m href routes =
     (case find (\<lambda>r. (m = ''*'' \<or> m = fst r) \<and> pattern_test P (fst (snd r)) href) routes of
        None \<Rightarrow> None
      | Some r \<Rightarrow> Some (snd (snd r),
          (case pattern_exec P (fst (snd r)) href of None \<Rightarrow> Map.empty | Some g \<Rightarrow> g)))"
  by (induction routes) auto

lemma strip_trailing_slash_append:
  "\<not> endsWith ''/'' href \<Longrightarrow> strip_trailing_slash (href @ ''/'') = href"
  by (simp add: strip_trailing_slash_def endsWith_def dropEnd_def)

lemma getRoute_trailing_slash:
  "\<not> endsWith ''/'' href \<Longrightarrow> getRoute P routes m (href @ ''/'') = getRoute P routes m href"
  by (simp add: getRoute_def strip_trailing_slash_append) (simp add: strip_trailing_slash_def)

text \<open>
  C1. A route registered for any method (\<^verbatim>\<open>"*"\<close>) whose pattern matches the path is not
  returned for a \<^verbatim>\<open>GET\<close> request: \<^verbatim>\<open>getRoute\<close> returns \<^verbatim>\<open>undefined\<close>. The test
  \<^verbatim>\<open>["*", route[0]].includes(method)\<close> compares the request's method, not the route's,
  with \<^verbatim>\<open>"*"\<close>.
\<close>

theorem getRoute_any_entry_skipped:
  "pattern_test literal_platform ''/a'' (strip_trailing_slash ''http://localhost:3000/a'') \<and>
   getRoute literal_platform [(''*'', ''/a'', record_call ''any'')] ''GET''
     ''http://localhost:3000/a'' = None"
  by (simp add: serve_defs example_defs)

subsection \<open>Methods that are not implemented\<close>




subsection \<open>Middleware\<close>

text \<open>
  Decoding the body: a request without a body leaves the state as it is; a decoded body
  changes the two body fields of the request facet and nothing else.
\<close>

lemma parse_body_no_body:
  "request_body request = None \<Longrightarrow> parse_body P request s = Returned s"
  by (simp add: parse_body_def)

lemma parse_body_decoded:
  assumes "parse_body P request s = Returned s1"
  shows "s1 = s \<or> (\<exists>b kind. s1 = s\<lparr>req_body := Some b, req_bodyType := Some kind\<rparr>)"
  using assms
  by (auto simp: parse_body_def read_body_def Let_def split: option.splits if_splits)

lemma run_middleware_append:
  "run_middleware (ms @ [m]) s = andThen (run_middleware ms s) m"
  by (induction ms arbitrary: s) (auto simp: andThen_def split: outcome.splits)

lemma run_middleware_total:
  "run_middleware (map (\<lambda>f s. Returned (f s)) fs) s = Returned (foldl (\<lambda>s f. f s) s fs)"
  by (induction fs arbitrary: s) (simp_all add: andThen_def)

lemma route_request_not_found:
  assumes "getRoute P routes (req_method s) (req_href s) = None" and "\<not> res_frozen s"
  shows "route_request P routes s =
     Returned (s\<lparr>res_body := BodyString (''404 '' @
            (case HTTPStatusText P 404 of None \<Rightarrow> [] | Some t \<Rightarrow> t)),
        res_status := 404\<rparr>)"
  using assms
  by (simp add: route_request_def sendStatus_def assign_body_def assign_status_def
      andThen_def string_of_nat_status)

text \<open>
  C2, as stated, fails: the loop over the middleware is inside the \<^verbatim>\<open>try\<close> block, after
  the call of the handler. When the handler of the matched route throws, control passes to
  the \<^verbatim>\<open>catch\<close> block: the response is 500 and neither of the two registered callbacks
  has run.
\<close>

theorem serve_handler_throws_counterexample:
  "returned (serve literal_platform [(''GET'', ''/boom'', Threw)]
      [record_call ''first'', record_call ''second''] (local_request ''GET'' ''/boom'' Map.empty)
      (first_context (local_request ''GET'' ''/boom'' Map.empty))) \<and>
   world (final_state (serve literal_platform [(''GET'', ''/boom'', Threw)]
      [record_call ''first'', record_call ''second''] (local_request ''GET'' ''/boom'' Map.empty)
      (first_context (local_request ''GET'' ''/boom'' Map.empty)))) = [] \<and>
   res_status (final_state (serve literal_platform [(''GET'', ''/boom'', Threw)]
      [record_call ''first'', record_call ''second''] (local_request ''GET'' ''/boom'' Map.empty)
      (first_context (local_request ''GET'' ''/boom'' Map.empty)))) = 500"
  by (simp add: serve_defs example_defs response_defs string_of_nat_status)

text \<open>
  The loop over the middleware: callbacks that return are run one after the other, each
  on the state its predecessor left, and the first callback that throws ends the loop with
  its throw, so that no later callback runs.
\<close>

lemma run_middleware_chain:
  assumes "length ss = Suc (length pre)"
    and "\<forall>i<length pre. (pre ! i) (ss ! i) = Returned (ss ! Suc i)"
  shows "run_middleware pre (ss ! 0) = Returned (last ss)"
  using assms
proof (induction pre arbitrary: ss)
  case Nil
  then obtain x where "ss = [x]" by (cases ss) auto
  then show ?case by simp
next
  case (Cons c cs)
  then obtain x ss' where ss: "ss = x # ss'" "length ss' = Suc (length cs)"
    by (cases ss) auto
  from Cons.prems(2) ss(1) have first: "c x = Returned (ss' ! 0)" by force
  from Cons.prems(2) ss(1)
  have rest: "\<forall>i<length cs. (cs ! i) (ss' ! i) = Returned (ss' ! Suc i)" by force
  from ss(2) have "ss' \<noteq> []" by auto
  with Cons.IH [OF ss(2) rest] first ss(1) show ?case by (simp add: andThen_def)
qed

lemma run_middleware_thrower:
  assumes "run_middleware pre s = Returned s'" and "thrower s' = Threw s3"
  shows "run_middleware (pre @ thrower # rest) s = Threw s3"
  using assms
  by (induction pre arbitrary: s) (auto simp: andThen_def split: outcome.splits)

lemma finalize_unfrozen:
  "\<not> res_frozen s \<Longrightarrow> finalize s = Returned (s\<lparr>res_sent := True, res_frozen := True\<rparr>)"
  by (simp add: finalize_def assign_sent_def andThen_def)

lemma catch_block_unfrozen:
  "\<not> res_frozen s \<Longrightarrow>
   andThen (catch_block P s) finalize =
     Returned (s\<lparr>logged := logged s @ [LogError (req_ip s)],
                 res_body := BodyString (''500 '' @
                   (case HTTPStatusText P 500 of None \<Rightarrow> [] | Some t \<Rightarrow> t)),
                 res_status := 500, res_sent := True, res_frozen := True\<rparr>)"
  by (simp add: catch_block_def sendStatus_def assign_body_def assign_status_def
      andThen_def finalize_def assign_sent_def string_of_nat_status)

text \<open>
  C2, amended. Take a request whose method is an entry of \<^verbatim>\<open>RequestMethods\<close> and whose
  body, if any, is decoded without error, leaving the state \<open>s1\<close>. Let the primary step
  return: either the handler of the matched route returns, or no route matches and the
  response is preset to 404. Let \<open>ss\<close> be the states the callbacks \<open>pre\<close>, in registration
  order and each on the state its predecessor left, return one after the other, starting
  from the state the primary step left.
  \<^item> When \<open>pre\<close> is all the middleware, the handler returns the last of these states
    with the response sent and frozen: every callback has run, in registration order,
    after the primary step, on the same context.
  \<^item> When the next callback throws, the callbacks registered after it do not run: the
    error is logged, the response is 500 with its status text, sent and frozen.
  \<^item> When the handler of the matched route throws, no middleware runs, whatever is
    registered: the error is logged, the response is 500, sent and frozen.

  (Each case supposes that no callback has frozen the response itself.)
\<close>

theorem serve_runs_middleware:
  assumes "req_method s \<in> set RequestMethods"
    and "parse_body P request
           (s\<lparr>logged := logged s @ [LogRequest (req_ip s) (req_method s) (req_pathname s)]\<rparr>)
         = Returned s1"
  shows
    "(((getRoute P routes (req_method s1) (req_href s1) = Some (handler, params)
         \<and> handler (s1\<lparr>req_pathParams := params\<rparr>) = Returned (ss ! 0))
       \<or> (getRoute P routes (req_method s1) (req_href s1) = None \<and> \<not> res_frozen s1
         \<and> ss ! 0 = s1\<lparr>res_body := BodyString (''404 '' @
                 (case HTTPStatusText P 404 of None \<Rightarrow> [] | Some t \<Rightarrow> t)),
               res_status := 404\<rparr>))
      \<and> length ss = Suc (length pre)
      \<and> (\<forall>i<length pre. (pre ! i) (ss ! i) = Returned (ss ! Suc i))
      \<longrightarrow>
        (\<not> res_frozen (last ss) \<longrightarrow>
           serve P routes pre request s =
             Returned ((last ss)\<lparr>res_sent := True, res_frozen := True\<rparr>))
      \<and> (thrower (last ss) = Threw s3 \<and> \<not> res_frozen s3 \<longrightarrow>
           serve P routes (pre @ thrower # rest) request s =
             Returned (s3\<lparr>logged := logged s3 @ [LogError (req_ip s3)],
                          res_body := BodyString (''500 '' @
                            (case HTTPStatusText P 500 of None \<Rightarrow> [] | Some t \<Rightarrow> t)),
                          res_status := 500, res_sent := True, res_frozen := True\<rparr>)))
   \<and> (getRoute P routes (req_method s1) (req_href s1) = Some (handler, params)
        \<and> handler (s1\<lparr>req_pathParams := params\<rparr>) = Threw s3 \<and> \<not> res_frozen s3
      \<longrightarrow>
        serve P routes middleware request s =
          Returned (s3\<lparr>logged := logged s3 @ [LogError (req_ip s3)],
                       res_body := BodyString (''500 '' @
                         (case HTTPStatusText P 500 of None \<Rightarrow> [] | Some t \<Rightarrow> t)),
                       res_status := 500, res_sent := True, res_frozen := True\<rparr>))"
proof -
  have served: "serve P routes mws request s =
      andThen (orCatch (andThen (route_request P routes s1) (run_middleware mws))
        (catch_block P)) finalize" for mws
    using assms by (simp add: serve_def try_block_def andThen_def)
  have primary: "route_request P routes s1 = Returned (ss ! 0)"
    if "(getRoute P routes (req_method s1) (req_href s1) = Some (handler, params)
         \<and> handler (s1\<lparr>req_pathParams := params\<rparr>) = Returned (ss ! 0))
       \<or> (getRoute P routes (req_method s1) (req_href s1) = None \<and> \<not> res_frozen s1
         \<and> ss ! 0 = s1\<lparr>res_body := BodyString (''404 '' @
                 (case HTTPStatusText P 404 of None \<Rightarrow> [] | Some t \<Rightarrow> t)),
               res_status := 404\<rparr>)"
    using that
    by (auto simp: route_request_def sendStatus_def assign_body_def assign_status_def
        andThen_def string_of_nat_status)
  have all_return: "serve P routes pre request s =
      Returned ((last ss)\<lparr>res_sent := True, res_frozen := True\<rparr>)"
    if "route_request P routes s1 = Returned (ss ! 0)" "length ss = Suc (length pre)"
      "\<forall>i<length pre. (pre ! i) (ss ! i) = Returned (ss ! Suc i)" "\<not> res_frozen (last ss)"
    using that run_middleware_chain [of ss pre]
    by (simp add: served andThen_def orCatch_def finalize_unfrozen)
  have one_throws: "serve P routes (pre @ thrower # rest) request s =
      Returned (s3\<lparr>logged := logged s3 @ [LogError (req_ip s3)],
                   res_body := BodyString (''500 '' @
                     (case HTTPStatusText P 500 of None \<Rightarrow> [] | Some t \<Rightarrow> t)),
                   res_status := 500, res_sent := True, res_frozen := True\<rparr>)"
    if "route_request P routes s1 = Returned (ss ! 0)" "length ss = Suc (length pre)"
      "\<forall>i<length pre. (pre ! i) (ss ! i) = Returned (ss ! Suc i)"
      "thrower (last ss) = Threw s3" "\<not> res_frozen s3"
  proof -
    from that(2,3) have "run_middleware pre (ss ! 0) = Returned (last ss)"
      by (rule run_middleware_chain)
    then have "run_middleware (pre @ thrower # rest) (ss ! 0) = Threw s3"
      using that(4) by (rule run_middleware_thrower)
    with that(1,5) catch_block_unfrozen [of s3 P] show ?thesis
      by (simp add: served andThen_def orCatch_def)
  qed
  have handler_throws: "serve P routes middleware request s =
      Returned (s3\<lparr>logged := logged s3 @ [LogError (req_ip s3)],
                   res_body := BodyString (''500 '' @
                     (case HTTPStatusText P 500 of None \<Rightarrow> [] | Some t \<Rightarrow> t)),
                   res_status := 500, res_sent := True, res_frozen := True\<rparr>)"
    if "getRoute P routes (req_method s1) (req_href s1) = Some (handler, params)"
      "handler (s1\<lparr>req_pathParams := params\<rparr>) = Threw s3" "\<not> res_frozen s3"
  proof -
    from that(1,2) have "route_request P routes s1 = Threw s3"
      by (simp add: route_request_def)
    with that(3) catch_block_unfrozen [of s3 P] show ?thesis
      by (simp add: served andThen_def orCatch_def)
  qed
  from primary all_return one_throws handler_throws show ?thesis by blast
qed

text \<open>
  C2, witness: \<^verbatim>\<open>GET /nope\<close> matches no route. With two callbacks registered, the
  response is preset to 404 and both run, the first before the second. With a callback
  that throws registered between two others, the first has run, the third has not, and
  the response is 500.
\<close>

theorem serve_runs_middleware_witness:
  "world (final_state (serve literal_platform [(''GET'', ''/a'', record_call ''handler'')]
      [record_call ''first'', record_call ''second''] (local_request ''GET'' ''/nope'' Map.empty)
      (first_context (local_request ''GET'' ''/nope'' Map.empty)))) = [''first'', ''second''] \<and>
   res_status (final_state (serve literal_platform [(''GET'', ''/a'', record_call ''handler'')]
      [record_call ''first'', record_call ''second''] (local_request ''GET'' ''/nope'' Map.empty)
      (first_context (local_request ''GET'' ''/nope'' Map.empty)))) = 404 \<and>
   world (final_state (serve literal_platform [(''GET'', ''/a'', record_call ''handler'')]
      [record_call ''first'', Threw, record_call ''third'']
      (local_request ''GET'' ''/nope'' Map.empty)
      (first_context (local_request ''GET'' ''/nope'' Map.empty)))) = [''first''] \<and>
   res_status (final_state (serve literal_platform [(''GET'', ''/a'', record_call ''handler'')]
      [record_call ''first'', Threw, record_call ''third'']
      (local_request ''GET'' ''/nope'' Map.empty)
      (first_context (local_request ''GET'' ''/nope'' Map.empty)))) = 500"
proof -
  let ?request = "local_request ''GET'' ''/nope'' Map.empty"
  let ?s = "first_context ?request :: (string, string list) state"
  let ?s1 = "?s\<lparr>logged := [LogRequest ''127.0.0.1'' ''GET'' ''/nope'']\<rparr>"
  let ?s2 = "?s1\<lparr>res_body := BodyString ''404 Not Found'', res_status := 404\<rparr>"
  let ?s3 = "?s2\<lparr>world := [''first'']\<rparr>"
  let ?s4 = "?s2\<lparr>world := [''first'', ''second'']\<rparr>"
  let ?routes = "[(''GET'', ''/a'', record_call ''handler'')]"
  have allowed: "req_method ?s \<in> set RequestMethods"
    by (simp add: example_defs serve_defs)
  have parsed: "parse_body literal_platform ?request
      (?s\<lparr>logged := logged ?s @ [LogRequest (req_ip ?s) (req_method ?s) (req_pathname ?s)]\<rparr>)
      = Returned ?s1"
    by (simp add: example_defs serve_defs)
  have missed: "getRoute literal_platform ?routes (req_method ?s1) (req_href ?s1) = None"
    by (simp add: example_defs serve_defs)
  have preset: "\<not> res_frozen ?s1 \<and>
      ?s2 = ?s1\<lparr>res_body := BodyString (''404 '' @
          (case HTTPStatusText literal_platform 404 of None \<Rightarrow> [] | Some t \<Rightarrow> t)),
        res_status := 404\<rparr>"
    by (simp add: example_defs serve_defs)
  have both: "\<forall>i<length [record_call ''first'', record_call ''second''].
      ([record_call ''first'', record_call ''second''] ! i) ([?s2, ?s3, ?s4] ! i)
        = Returned ([?s2, ?s3, ?s4] ! Suc i)"
    by (simp add: All_less_Suc example_defs serve_defs)
  have one: "\<forall>i<length [record_call ''first''].
      ([record_call ''first''] ! i) ([?s2, ?s3] ! i) = Returned ([?s2, ?s3] ! Suc i)"
    by (simp add: example_defs serve_defs)
  from missed preset both
    serve_runs_middleware [OF allowed parsed, where routes = ?routes
      and ss = "[?s2, ?s3, ?s4]" and pre = "[record_call ''first'', record_call ''second'']"]
  have served: "serve literal_platform ?routes [record_call ''first'', record_call ''second'']
      ?request ?s = Returned (?s4\<lparr>res_sent := True, res_frozen := True\<rparr>)"
    by (simp add: example_defs serve_defs)
  from missed preset one
    serve_runs_middleware [OF allowed parsed, where routes = ?routes
      and ss = "[?s2, ?s3]" and pre = "[record_call ''first'']" and thrower = Threw
      and ?s3.0 = ?s3 and rest = "[record_call ''third'']"]
  have thrown: "serve literal_platform ?routes
      [record_call ''first'', Threw, record_call ''third''] ?request ?s =
      Returned (?s3\<lparr>logged := logged ?s3 @ [LogError (req_ip ?s3)],
        res_body := BodyString (''500 '' @
          (case HTTPStatusText literal_platform 500 of None \<Rightarrow> [] | Some t \<Rightarrow> t)),
        res_status := 500, res_sent := True, res_frozen := True\<rparr>)"
    by (simp add: example_defs serve_defs)
  from served thrown show ?thesis
    by (simp add: final_state_def)
qed

subsection \<open>The socket of a request\<close>

text \<open>
  C8, as stated, fails in its second half: a handler obtains the socket of a handshake
  request, the response is finalized, and the accessor called on the finalized context
  returns that socket, not nothing.
\<close>

theorem upgrade_socket_after_sent_counterexample:
  "res_sent (final_state (serve literal_platform [(''GET'', ''/ws'', opens_socket)] []
      (local_request ''GET'' ''/ws'' handshake_headers)
      (first_context (local_request ''GET'' ''/ws'' handshake_headers)))) \<and>
   upgrade_socket literal_platform
     (final_state (serve literal_platform [(''GET'', ''/ws'', opens_socket)] []
        (local_request ''GET'' ''/ws'' handshake_headers)
        (first_context (local_request ''GET'' ''/ws'' handshake_headers)))) =
   Inr (Some 0, final_state (serve literal_platform [(''GET'', ''/ws'', opens_socket)] []
        (local_request ''GET'' ''/ws'' handshake_headers)
        (first_context (local_request ''GET'' ''/ws'' handshake_headers))))"
  by (simp add: serve_defs example_defs response_defs upgrade_socket_def Let_def
      addSocketToChannel_def set_add_def)

text \<open>
  C8, amended. A call of the accessor that returns is repeated by the next call: the
  second call returns what the first returned and changes nothing, so there is no second
  upgrade, no new handle and no change of any channel (and a call that throws leaves the
  state as it was). Once a socket is held, every later call returns it and changes nothing.
  A call after the response is finalized performs no upgrade and changes nothing; it
  returns the socket obtained before, and nothing when none was obtained (or when no upgrade
  is available).
\<close>

theorem upgrade_socket_memoised:
  "(case upgrade_socket P s of
      Inl s1 \<Rightarrow> s1 = s
    | Inr (r, s1) \<Rightarrow> upgrade_socket P s1 = Inr (r, s1)) \<and>
   (upgrade_available s \<and> socket_var s = Some sock \<longrightarrow>
      upgrade_socket P s = Inr (Some sock, s)) \<and>
   (res_sent s \<longrightarrow>
      upgrade_socket P s = Inr (if upgrade_available s then socket_var s else None, s))"
  by (simp add: upgrade_socket_def Let_def)

text \<open>
  C8, witness: on a fresh context of a handshake request the first call returns the handle
  0 and the second call, on the state the first left, returns 0 again and leaves that
  state; on the same context marked as sent, without a socket, the call returns nothing.
\<close>

theorem upgrade_socket_memoised_witness:
  "(case upgrade_socket literal_platform
           (first_context (local_request ''GET'' ''/ws'' handshake_headers)) of
      Inl s1 \<Rightarrow> False
    | Inr (r, s1) \<Rightarrow> r = Some 0 \<and> upgrade_socket literal_platform s1 = Inr (Some 0, s1)) \<and>
   res_sent ((first_context (local_request ''GET'' ''/ws'' handshake_headers))
      \<lparr>res_sent := True\<rparr>) \<and>
   upgrade_socket literal_platform
     ((first_context (local_request ''GET'' ''/ws'' handshake_headers))\<lparr>res_sent := True\<rparr>) =
   Inr (None, (first_context (local_request ''GET'' ''/ws'' handshake_headers))
      \<lparr>res_sent := True\<rparr>)"
  using upgrade_socket_memoised [where P = literal_platform
      and s = "first_context (local_request ''GET'' ''/ws'' handshake_headers)" and sock = 0]
    upgrade_socket_memoised [where P = literal_platform
      and s = "(first_context (local_request ''GET'' ''/ws'' handshake_headers))
                 \<lparr>res_sent := True\<rparr>" and sock = 0]
  by (simp add: example_defs new_context_def upgrade_socket_def Let_def)

subsection \<open>The frozen response\<close>

lemma finalize_frozen:
  "finalize s = Returned s' \<Longrightarrow> res_sent s' \<and> res_frozen s'"
  by (auto simp: finalize_def assign_sent_def andThen_def split: if_splits)

lemma serve_frozen:
  "serve P routes middleware request s = Returned s' \<Longrightarrow> res_sent s' \<and> res_frozen s'"
  unfolding serve_def andThen_def
  by (auto split: outcome.splits dest: finalize_frozen)

lemma frozen_rejects:
  assumes "res_frozen s"
  shows "assign_body v s = Threw s" "assign_status n s = Threw s" "assign_sent b s = Threw s"
    "assign_headers h s = Threw s" "sendStatus P st s = Threw s" "sendJSON P j s = Threw s"
    "sendFile P f s = Threw s" "sendFileStream P f s = Threw s"
  using assms by (simp_all add: response_defs split: option.splits)

text \<open>
  C9, as stated, fails for the headers: \<^verbatim>\<open>Object.freeze(ctx.res)\<close> does not freeze the
  \<^verbatim>\<open>Headers\<close> object. On the finalized context of a request, \<^verbatim>\<open>markForDownload()\<close>
  returns and the header \<^verbatim>\<open>content-disposition\<close>, absent before, is set.
\<close>

theorem frozen_headers_counterexample:
  "res_sent (final_state (serve literal_platform [] []
      (local_request ''GET'' ''/a'' Map.empty)
      (first_context (local_request ''GET'' ''/a'' Map.empty)))) \<and>
   res_headers (final_state (serve literal_platform [] []
      (local_request ''GET'' ''/a'' Map.empty)
      (first_context (local_request ''GET'' ''/a'' Map.empty)))) ''content-disposition'' = None \<and>
   returned (markForDownload None (final_state (serve literal_platform [] []
      (local_request ''GET'' ''/a'' Map.empty)
      (first_context (local_request ''GET'' ''/a'' Map.empty))))) \<and>
   res_headers (final_state (markForDownload None (final_state (serve literal_platform [] []
      (local_request ''GET'' ''/a'' Map.empty)
      (first_context (local_request ''GET'' ''/a'' Map.empty))))))
      ''content-disposition'' = Some ''attachment''"
  by (simp add: serve_defs example_defs response_defs string_of_nat_status truthy_def)

text \<open>
  C9, amended. On the context a served request leaves behind, \<^verbatim>\<open>sent\<close> is true and the
  properties of the response facet are frozen: an assignment to \<^verbatim>\<open>body\<close>, \<^verbatim>\<open>status\<close>,
  \<^verbatim>\<open>sent\<close> or \<^verbatim>\<open>headers\<close>, and each of \<^verbatim>\<open>sendStatus\<close>, \<^verbatim>\<open>sendJSON\<close>,
  \<^verbatim>\<open>sendFile\<close> and \<^verbatim>\<open>sendFileStream\<close>, throws and leaves the context as it was.
  (Entries of the \<^verbatim>\<open>Headers\<close> object are outside this guarantee.)
\<close>

theorem frozen_response_rejects:
  assumes "serve P routes middleware request s0 = Returned s"
  shows "res_sent s \<and> assign_body v s = Threw s \<and> assign_status n s = Threw s \<and>
     assign_sent b s = Threw s \<and> assign_headers h s = Threw s \<and>
     sendStatus P' st s = Threw s \<and> sendJSON P' j s = Threw s \<and>
     sendFile P' f s = Threw s \<and> sendFileStream P' f s = Threw s"
  using serve_frozen [OF assms] by (simp add: frozen_rejects)

text \<open>
  C9, witness: \<^verbatim>\<open>GET /a\<close> with no route registered is served, and on the context it
  leaves \<^verbatim>\<open>sendStatus(200)\<close> throws and changes nothing.
\<close>

theorem frozen_response_rejects_witness:
  "res_sent (final_state (serve literal_platform [] []
      (local_request ''GET'' ''/a'' Map.empty)
      (first_context (local_request ''GET'' ''/a'' Map.empty)))) \<and>
   sendStatus literal_platform 200 (final_state (serve literal_platform [] []
      (local_request ''GET'' ''/a'' Map.empty)
      (first_context (local_request ''GET'' ''/a'' Map.empty)))) =
     Threw (final_state (serve literal_platform [] []
      (local_request ''GET'' ''/a'' Map.empty)
      (first_context (local_request ''GET'' ''/a'' Map.empty)))) \<and>
   res_status (final_state (serve literal_platform [] []
      (local_request ''GET'' ''/a'' Map.empty)
      (first_context (local_request ''GET'' ''/a'' Map.empty)))) = 404"
proof -
  let ?request = "local_request ''GET'' ''/a'' Map.empty"
  let ?served = "serve literal_platform [] [] ?request
      (first_context ?request :: (string, string list) state)"
  have "returned ?served"
    by (simp add: serve_defs example_defs response_defs string_of_nat_status)
  then have served: "?served = Returned (final_state ?served)"
    by (simp add: returned_def final_state_def split: outcome.splits)
  have "res_status (final_state ?served) = 404"
    by (simp add: serve_defs example_defs response_defs string_of_nat_status)
  with frozen_response_rejects [OF served, of _ _ _ _ literal_platform 200]
  show ?thesis by simp
qed

subsection \<open>Joining a channel without a socket\<close>




end
